theory Spec2Isabelle
  imports Complex_Main
begin

section \<open>CoDSPy: the three-stage pipeline and its containment of model failures\<close>

text \<open>
  The repository has two programs, \<^verbatim>\<open>v1_CoT_CodeLlama.py\<close> and \<^verbatim>\<open>v3_ReAct.py\<close>.
  Each builds three stage objects on top of a prompting framework (\<^verbatim>\<open>dspy\<close>), an
  orchestrator \<^verbatim>\<open>CodeForge.process\<close> that runs them, and a click handler
  \<^verbatim>\<open>process_code\<close> that validates the input. Every definition below that ends in
  \<open>_v1\<close> embeds the code of the first file, every definition that ends in \<open>_v3\<close>
  the code of the second.
\<close>

subsection \<open>Python values: strings, dictionaries, exceptions\<close>

text \<open>
  A Python \<^verbatim>\<open>str\<close> is a \<^typ>\<open>string\<close>; the characters are the code points below
  256. A \<^verbatim>\<open>Dict[str, str]\<close> is a finite map from keys to strings.
\<close>

type_synonym Dict = "string \<rightharpoonup> string"

text \<open>
  The exceptions the programs meet, all of them instances of Python's \<^verbatim>\<open>Exception\<close>
  class, which is the class the stages' handlers name: \<open>Exception msg\<close> is whatever a
  call into the framework raised, with \<open>msg\<close> its \<^verbatim>\<open>str()\<close>; \<open>KeyError k\<close> is a
  subscript \<^verbatim>\<open>d[k]\<close> on a dictionary without the key \<open>k\<close>; \<open>Error msg\<close> is
  \<^verbatim>\<open>gr.Error(msg)\<close>, the error the user interface displays. The interpreter's own
  signals outside that class (\<^verbatim>\<open>KeyboardInterrupt\<close>, \<^verbatim>\<open>SystemExit\<close>) are not failures
  of a model call and are not values of this type.
\<close>

datatype exn = Exception string | KeyError string | Error string

fun str :: "exn \<Rightarrow> string" where
  "str (Exception msg) = msg"
| "str (KeyError k) = [CHR 0x27] @ k @ [CHR 0x27]"
| "str (Error msg) = msg"

subsection \<open>The world: the model runtime, the framework's settings, the calls made\<close>

text \<open>
  \<^verbatim>\<open>dspy.OllamaLocal(model=..., device=..., temperature=...)\<close>: the language-model client
  that \<^verbatim>\<open>dspy.configure\<close> installs process-wide.
\<close>

record OllamaLocal =
  model :: string
  device :: string
  temperature :: rat

text \<open>
  A call of a framework module reaches the local model runtime, whose state has the
  unknown type \<open>'w\<close>; the answer may depend on that state and may change it. The world
  also keeps the installed client and, as an observation of the run, the list of module
  calls made so far: the attribute through which the module was called and the keyword
  arguments it was given.
\<close>

type_synonym kwargs = "(string \<times> string) list"

record 'w world =
  runtime :: 'w
  lm :: "OllamaLocal option"
  calls :: "(string \<times> kwargs) list"

text \<open>
  A computation either returns a value or raises, and leaves a world behind in both
  cases.
\<close>

type_synonym ('w, 'a) py = "'w world \<Rightarrow> (exn + 'a) \<times> 'w world"

definition py_return :: "'a \<Rightarrow> ('w, 'a) py" where
  "py_return v w = (Inr v, w)"

definition py_raise :: "exn \<Rightarrow> ('w, 'a) py" where
  "py_raise e w = (Inl e, w)"

definition py_bind :: "('w, 'a) py \<Rightarrow> ('a \<Rightarrow> ('w, 'b) py) \<Rightarrow> ('w, 'b) py" where
  "py_bind m f w = (case m w of (Inl e, w') \<Rightarrow> (Inl e, w') | (Inr v, w') \<Rightarrow> f v w')"

text \<open>
  \<^verbatim>\<open>try: m except Exception as e: h(e)\<close>. The handler runs in the world the failed body
  left behind.
\<close>

definition py_try :: "('w, 'a) py \<Rightarrow> (exn \<Rightarrow> ('w, 'a) py) \<Rightarrow> ('w, 'a) py" where
  "py_try m h w = (case m w of (Inl e, w') \<Rightarrow> h e w' | (Inr v, w') \<Rightarrow> (Inr v, w'))"

text \<open>\<^verbatim>\<open>d[k]\<close> on a dictionary raises \<^verbatim>\<open>KeyError\<close> when the key is absent.\<close>

definition getitem :: "Dict \<Rightarrow> string \<Rightarrow> ('w, string) py" where
  "getitem d k = (case d k of None \<Rightarrow> py_raise (KeyError k) | Some v \<Rightarrow> py_return v)"

subsection \<open>The prompting framework\<close>

text \<open>
  The framework is not part of the repository. A \<^verbatim>\<open>dspy.Prediction\<close> is known only by
  its attribute access, which gives a string or raises (a missing output field). A
  module (\<^verbatim>\<open>dspy.ChainOfThought\<close>, \<^verbatim>\<open>dspy.ReAct\<close>) is known only by its call: keyword
  arguments and the runtime's state in, a prediction or an exception and the runtime's
  new state out.
\<close>

type_synonym Prediction = "string \<Rightarrow> exn + string"

type_synonym 'w Module = "kwargs \<Rightarrow> 'w \<Rightarrow> (exn + Prediction) \<times> 'w"

record Tool =
  name :: string
  func :: "string \<Rightarrow> string"

record 'w dspy =
  ChainOfThought :: "string \<Rightarrow> 'w Module"
  ReAct :: "string \<Rightarrow> Tool list \<Rightarrow> 'w Module"

text \<open>\<^verbatim>\<open>prediction.field\<close>.\<close>

definition getattr :: "Prediction \<Rightarrow> string \<Rightarrow> ('w, string) py" where
  "getattr prediction field w = (prediction field, w)"

text \<open>
  \<^verbatim>\<open>self.attr(**kwargs)\<close>: the module runs on the runtime, and the call is appended to the
  world's list of calls.
\<close>

definition call :: "string \<Rightarrow> 'w Module \<Rightarrow> kwargs \<Rightarrow> ('w, Prediction) py" where
  "call attr m kw w =
     (case m kw (runtime w) of
        (r, s) \<Rightarrow> (r, w\<lparr>runtime := s, calls := calls w @ [(attr, kw)]\<rparr>))"

text \<open>\<^verbatim>\<open>dspy.configure(lm=client)\<close>.\<close>

definition configure :: "OllamaLocal \<Rightarrow> 'w world \<Rightarrow> 'w world" where
  "configure client w = w\<lparr>lm := Some client\<rparr>"

subsection \<open>Whitespace\<close>

text \<open>
  \<^verbatim>\<open>str.isspace\<close> on one character, for the code points below 256: the controls
  9 to 13 and 28 to 31, the space, NEL (133) and the no-break space (160).
  \<^verbatim>\<open>str.strip()\<close> removes the leading and the trailing whitespace.
\<close>

definition isspace :: "char \<Rightarrow> bool" where
  "isspace c = (let n = (of_char c :: nat) in
     (9 \<le> n \<and> n \<le> 13) \<or> (28 \<le> n \<and> n \<le> 32) \<or> n = 133 \<or> n = 160)"

definition strip :: "string \<Rightarrow> string" where
  "strip s = rev (dropWhile isspace (rev (dropWhile isspace s)))"

subsection \<open>The first program: chain-of-thought modules\<close>

record 'w CodeAnalyzer_v1 =
  analyze_code_v1 :: "'w Module"

record 'w CodeOptimizer_v1 =
  optimize_code_v1 :: "'w Module"

record 'w TestGenerator_v1 =
  generate_tests_v1 :: "'w Module"

definition CodeAnalyzer_init_v1 :: "'w dspy \<Rightarrow> 'w CodeAnalyzer_v1" where
  "CodeAnalyzer_init_v1 d =
     \<lparr>analyze_code_v1 = ChainOfThought d ''code -> issues, suggestions''\<rparr>"

definition CodeOptimizer_init_v1 :: "'w dspy \<Rightarrow> 'w CodeOptimizer_v1" where
  "CodeOptimizer_init_v1 d =
     \<lparr>optimize_code_v1 = ChainOfThought d ''code, suggestions -> optimized_code''\<rparr>"

definition TestGenerator_init_v1 :: "'w dspy \<Rightarrow> 'w TestGenerator_v1" where
  "TestGenerator_init_v1 d =
     \<lparr>generate_tests_v1 = ChainOfThought d ''code -> test_cases, test_code''\<rparr>"

definition analyze_v1 :: "'w CodeAnalyzer_v1 \<Rightarrow> string \<Rightarrow> ('w, Dict) py" where
  "analyze_v1 self code =
     py_try
       (py_bind (call ''analyze_code'' (analyze_code_v1 self) [(''code'', code)])
          (\<lambda>prediction.
        py_bind (getattr prediction ''issues'') (\<lambda>issues.
        py_bind (getattr prediction ''suggestions'') (\<lambda>suggestions.
        py_return [''issues'' \<mapsto> issues, ''suggestions'' \<mapsto> suggestions]))))
       (\<lambda>e. py_return
          [''issues'' \<mapsto> ''Analysis error: '' @ str e,
           ''suggestions'' \<mapsto> ''No suggestions available''])"

definition optimize_v1 :: "'w CodeOptimizer_v1 \<Rightarrow> string \<Rightarrow> string \<Rightarrow> ('w, string) py" where
  "optimize_v1 self code suggestions =
     py_try
       (py_bind (call ''optimize_code'' (optimize_code_v1 self)
                   [(''code'', code), (''suggestions'', suggestions)])
          (\<lambda>prediction. getattr prediction ''optimized_code''))
       (\<lambda>e. py_return (''Optimization error: '' @ str e))"

definition create_tests_v1 :: "'w TestGenerator_v1 \<Rightarrow> string \<Rightarrow> ('w, Dict) py" where
  "create_tests_v1 self code =
     py_try
       (py_bind (call ''generate_tests'' (generate_tests_v1 self) [(''code'', code)])
          (\<lambda>prediction.
        py_bind (getattr prediction ''test_cases'') (\<lambda>test_cases.
        py_bind (getattr prediction ''test_code'') (\<lambda>test_code.
        py_return [''test_cases'' \<mapsto> test_cases, ''test_code'' \<mapsto> test_code]))))
       (\<lambda>e. py_return
          [''test_cases'' \<mapsto> ''Test generation failed: '' @ str e,
           ''test_code'' \<mapsto> ''Unable to generate test code''])"

record 'w CodeForge_v1 =
  analyzer_v1 :: "'w CodeAnalyzer_v1"
  optimizer_v1 :: "'w CodeOptimizer_v1"
  tester_v1 :: "'w TestGenerator_v1"

definition OllamaLocal_v1 :: OllamaLocal where
  "OllamaLocal_v1 = \<lparr>model = ''codellama:7b'', device = ''cuda'', temperature = 2 / 10\<rparr>"

definition CodeForge_init_v1 :: "'w dspy \<Rightarrow> 'w world \<Rightarrow> 'w CodeForge_v1 \<times> 'w world" where
  "CodeForge_init_v1 d w =
     (\<lparr>analyzer_v1 = CodeAnalyzer_init_v1 d,
       optimizer_v1 = CodeOptimizer_init_v1 d,
       tester_v1 = TestGenerator_init_v1 d\<rparr>,
      configure OllamaLocal_v1 w)"

definition process_v1 :: "'w CodeForge_v1 \<Rightarrow> string \<Rightarrow> ('w, Dict) py" where
  "process_v1 self code =
     py_bind (analyze_v1 (analyzer_v1 self) code) (\<lambda>analysis.
     py_bind (getitem analysis ''suggestions'') (\<lambda>suggestions.
     py_bind (optimize_v1 (optimizer_v1 self) code suggestions) (\<lambda>optimized.
     py_bind (create_tests_v1 (tester_v1 self) code) (\<lambda>tests.
     py_bind (getitem analysis ''issues'') (\<lambda>r_issues.
     py_bind (getitem analysis ''suggestions'') (\<lambda>r_suggestions.
     py_bind (getitem tests ''test_cases'') (\<lambda>r_test_cases.
     py_bind (getitem tests ''test_code'') (\<lambda>r_test_code.
     py_return
       [''issues'' \<mapsto> r_issues,
        ''suggestions'' \<mapsto> r_suggestions,
        ''optimized_code'' \<mapsto> optimized,
        ''test_cases'' \<mapsto> r_test_cases,
        ''test_code'' \<mapsto> r_test_code]))))))))"

text \<open>
  The click handler of \<^verbatim>\<open>create_interface\<close>; a string is false in a condition exactly
  when it is empty.
\<close>

definition process_code_v1 ::
  "'w CodeForge_v1 \<Rightarrow> string \<Rightarrow> ('w, string \<times> string \<times> string \<times> string \<times> string) py" where
  "process_code_v1 forge code =
     (if strip code = [] then py_raise (Error ''Please input some code to analyze!'')
      else
        py_bind (process_v1 forge code) (\<lambda>results.
        py_bind (getitem results ''issues'') (\<lambda>r_issues.
        py_bind (getitem results ''suggestions'') (\<lambda>r_suggestions.
        py_bind (getitem results ''optimized_code'') (\<lambda>r_optimized_code.
        py_bind (getitem results ''test_cases'') (\<lambda>r_test_cases.
        py_bind (getitem results ''test_code'') (\<lambda>r_test_code.
        py_return
          (r_issues, r_suggestions, r_optimized_code, r_test_cases, r_test_code))))))))"

text \<open>\<^verbatim>\<open>web_app.launch(server_port=..., server_name=...)\<close>.\<close>

record launch_args =
  server_port :: nat
  server_name :: string

definition launch_v1 :: launch_args where
  "launch_v1 = \<lparr>server_port = 7860, server_name = ''0.0.0.0''\<rparr>"

subsection \<open>The second program: tool-augmented modules\<close>

text \<open>
  The tools are methods that do not read \<^verbatim>\<open>self\<close>; each is a function of its one
  string argument.
\<close>

definition CodeAnalyzer__analyze_code :: "string \<Rightarrow> string" where
  "CodeAnalyzer__analyze_code code = ''Analyzing code for potential issues...''"

definition CodeAnalyzer__generate_suggestions :: "string \<Rightarrow> string" where
  "CodeAnalyzer__generate_suggestions issues =
     ''Generating optimization suggestions based on issues...''"

definition CodeOptimizer__optimize_code :: "string \<Rightarrow> string" where
  "CodeOptimizer__optimize_code code = ''Optimizing code structure...''"

definition CodeOptimizer__refactor_code :: "string \<Rightarrow> string" where
  "CodeOptimizer__refactor_code code = ''Refactoring code for better readability...''"

definition TestGenerator__generate_test_cases :: "string \<Rightarrow> string" where
  "TestGenerator__generate_test_cases code = ''Generating test cases...''"

definition TestGenerator__write_test_code :: "string \<Rightarrow> string" where
  "TestGenerator__write_test_code test_cases = ''Writing test code implementation...''"

record 'w CodeAnalyzer_v3 =
  analyzer_tools_v3 :: "Tool list"
  analyze_code_v3 :: "'w Module"

record 'w CodeOptimizer_v3 =
  optimizer_tools_v3 :: "Tool list"
  optimize_code_v3 :: "'w Module"

record 'w TestGenerator_v3 =
  tester_tools_v3 :: "Tool list"
  generate_tests_v3 :: "'w Module"

definition CodeAnalyzer_init_v3 :: "'w dspy \<Rightarrow> 'w CodeAnalyzer_v3" where
  "CodeAnalyzer_init_v3 d =
     (let tools =
        [\<lparr>name = ''code_analysis'', func = CodeAnalyzer__analyze_code\<rparr>,
         \<lparr>name = ''suggestion_generator'', func = CodeAnalyzer__generate_suggestions\<rparr>]
      in \<lparr>analyzer_tools_v3 = tools,
          analyze_code_v3 = ReAct d ''code -> issues, suggestions'' tools\<rparr>)"

definition CodeOptimizer_init_v3 :: "'w dspy \<Rightarrow> 'w CodeOptimizer_v3" where
  "CodeOptimizer_init_v3 d =
     (let tools =
        [\<lparr>name = ''code_optimizer'', func = CodeOptimizer__optimize_code\<rparr>,
         \<lparr>name = ''code_refactor'', func = CodeOptimizer__refactor_code\<rparr>]
      in \<lparr>optimizer_tools_v3 = tools,
          optimize_code_v3 = ReAct d ''code, suggestions -> optimized_code'' tools\<rparr>)"

definition TestGenerator_init_v3 :: "'w dspy \<Rightarrow> 'w TestGenerator_v3" where
  "TestGenerator_init_v3 d =
     (let tools =
        [\<lparr>name = ''test_case_generator'', func = TestGenerator__generate_test_cases\<rparr>,
         \<lparr>name = ''test_code_writer'', func = TestGenerator__write_test_code\<rparr>]
      in \<lparr>tester_tools_v3 = tools,
          generate_tests_v3 = ReAct d ''code -> test_cases, test_code'' tools\<rparr>)"

definition analyze_v3 :: "'w CodeAnalyzer_v3 \<Rightarrow> string \<Rightarrow> ('w, Dict) py" where
  "analyze_v3 self code =
     py_try
       (py_bind (call ''analyze_code'' (analyze_code_v3 self) [(''code'', code)])
          (\<lambda>prediction.
        py_bind (getattr prediction ''issues'') (\<lambda>issues.
        py_bind (getattr prediction ''suggestions'') (\<lambda>suggestions.
        py_return [''issues'' \<mapsto> issues, ''suggestions'' \<mapsto> suggestions]))))
       (\<lambda>e. py_return
          [''issues'' \<mapsto> ''Analysis error: '' @ str e,
           ''suggestions'' \<mapsto> ''No suggestions available''])"

definition optimize_v3 :: "'w CodeOptimizer_v3 \<Rightarrow> string \<Rightarrow> string \<Rightarrow> ('w, string) py" where
  "optimize_v3 self code suggestions =
     py_try
       (py_bind (call ''optimize_code'' (optimize_code_v3 self)
                   [(''code'', code), (''suggestions'', suggestions)])
          (\<lambda>prediction. getattr prediction ''optimized_code''))
       (\<lambda>e. py_return (''Optimization error: '' @ str e))"

definition create_tests_v3 :: "'w TestGenerator_v3 \<Rightarrow> string \<Rightarrow> ('w, Dict) py" where
  "create_tests_v3 self code =
     py_try
       (py_bind (call ''generate_tests'' (generate_tests_v3 self) [(''code'', code)])
          (\<lambda>prediction.
        py_bind (getattr prediction ''test_cases'') (\<lambda>test_cases.
        py_bind (getattr prediction ''test_code'') (\<lambda>test_code.
        py_return [''test_cases'' \<mapsto> test_cases, ''test_code'' \<mapsto> test_code]))))
       (\<lambda>e. py_return
          [''test_cases'' \<mapsto> ''Test generation failed: '' @ str e,
           ''test_code'' \<mapsto> ''Unable to generate test code''])"

record 'w CodeForge_v3 =
  analyzer_v3 :: "'w CodeAnalyzer_v3"
  optimizer_v3 :: "'w CodeOptimizer_v3"
  tester_v3 :: "'w TestGenerator_v3"

definition OllamaLocal_v3 :: OllamaLocal where
  "OllamaLocal_v3 = \<lparr>model = ''llama3.2:3b'', device = ''cuda'', temperature = 2 / 10\<rparr>"

definition CodeForge_init_v3 :: "'w dspy \<Rightarrow> 'w world \<Rightarrow> 'w CodeForge_v3 \<times> 'w world" where
  "CodeForge_init_v3 d w =
     (\<lparr>analyzer_v3 = CodeAnalyzer_init_v3 d,
       optimizer_v3 = CodeOptimizer_init_v3 d,
       tester_v3 = TestGenerator_init_v3 d\<rparr>,
      configure OllamaLocal_v3 w)"

definition process_v3 :: "'w CodeForge_v3 \<Rightarrow> string \<Rightarrow> ('w, Dict) py" where
  "process_v3 self code =
     py_bind (analyze_v3 (analyzer_v3 self) code) (\<lambda>analysis.
     py_bind (getitem analysis ''suggestions'') (\<lambda>suggestions.
     py_bind (optimize_v3 (optimizer_v3 self) code suggestions) (\<lambda>optimized.
     py_bind (create_tests_v3 (tester_v3 self) code) (\<lambda>tests.
     py_bind (getitem analysis ''issues'') (\<lambda>r_issues.
     py_bind (getitem analysis ''suggestions'') (\<lambda>r_suggestions.
     py_bind (getitem tests ''test_cases'') (\<lambda>r_test_cases.
     py_bind (getitem tests ''test_code'') (\<lambda>r_test_code.
     py_return
       [''issues'' \<mapsto> r_issues,
        ''suggestions'' \<mapsto> r_suggestions,
        ''optimized_code'' \<mapsto> optimized,
        ''test_cases'' \<mapsto> r_test_cases,
        ''test_code'' \<mapsto> r_test_code]))))))))"

definition process_code_v3 ::
  "'w CodeForge_v3 \<Rightarrow> string \<Rightarrow> ('w, string \<times> string \<times> string \<times> string \<times> string) py" where
  "process_code_v3 forge code =
     (if strip code = [] then py_raise (Error ''Please input some code to analyze!'')
      else
        py_bind (process_v3 forge code) (\<lambda>results.
        py_bind (getitem results ''issues'') (\<lambda>r_issues.
        py_bind (getitem results ''suggestions'') (\<lambda>r_suggestions.
        py_bind (getitem results ''optimized_code'') (\<lambda>r_optimized_code.
        py_bind (getitem results ''test_cases'') (\<lambda>r_test_cases.
        py_bind (getitem results ''test_code'') (\<lambda>r_test_code.
        py_return
          (r_issues, r_suggestions, r_optimized_code, r_test_cases, r_test_code))))))))"

definition launch_v3 :: launch_args where
  "launch_v3 = \<lparr>server_port = 7860, server_name = ''0.0.0.0''\<rparr>"

subsection \<open>Sample behaviours of the framework\<close>

text \<open>
  Concrete inputs at which the theorems below are instantiated. The runtime's state is
  the number of module calls it has served. \<open>answering\<close> is a module whose model call
  succeeds and whose prediction has every output field; \<open>refusing\<close> is a module whose
  model call raises.
\<close>

definition answering :: "nat Module" where
  "answering kw s = (Inr (\<lambda>field. Inr (''generated '' @ field)), Suc s)"

definition refusing :: "nat Module" where
  "refusing kw s = (Inl (Exception ''connection refused''), Suc s)"

definition sample_world :: "nat world" where
  "sample_world = \<lparr>runtime = 0, lm = None, calls = []\<rparr>"

definition sample_dspy :: "nat dspy" where
  "sample_dspy = \<lparr>ChainOfThought = (\<lambda>sig. answering), ReAct = (\<lambda>sig tools. answering)\<rparr>"

section \<open>Properties\<close>

subsection \<open>What one stage does\<close>

lemmas py_defs =
  py_return_def py_raise_def py_bind_def py_try_def getitem_def getattr_def call_def

lemmas sample_defs = answering_def refusing_def sample_world_def sample_dspy_def

lemma analyze_v1_fst:
  "\<exists>i sg. fst (analyze_v1 self code w) = Inr [''issues'' \<mapsto> i, ''suggestions'' \<mapsto> sg]"
  by (auto simp: analyze_v1_def py_defs split: prod.splits sum.splits)

lemma analyze_v1_snd:
  "snd (analyze_v1 self code w) =
     w\<lparr>runtime := snd (analyze_code_v1 self [(''code'', code)] (runtime w)),
       calls := calls w @ [(''analyze_code'', [(''code'', code)])]\<rparr>"
  by (auto simp: analyze_v1_def py_defs split: prod.splits sum.splits)

lemma optimize_v1_fst: "\<exists>v. fst (optimize_v1 self code sg w) = Inr v"
  by (auto simp: optimize_v1_def py_defs split: prod.splits sum.splits)

lemma optimize_v1_snd:
  "snd (optimize_v1 self code sg w) =
     w\<lparr>runtime :=
         snd (optimize_code_v1 self [(''code'', code), (''suggestions'', sg)] (runtime w)),
       calls := calls w @ [(''optimize_code'', [(''code'', code), (''suggestions'', sg)])]\<rparr>"
  by (auto simp: optimize_v1_def py_defs split: prod.splits sum.splits)

lemma create_tests_v1_fst:
  "\<exists>tc td. fst (create_tests_v1 self code w) =
     Inr [''test_cases'' \<mapsto> tc, ''test_code'' \<mapsto> td]"
  by (auto simp: create_tests_v1_def py_defs split: prod.splits sum.splits)

lemma create_tests_v1_snd:
  "snd (create_tests_v1 self code w) =
     w\<lparr>runtime := snd (generate_tests_v1 self [(''code'', code)] (runtime w)),
       calls := calls w @ [(''generate_tests'', [(''code'', code)])]\<rparr>"
  by (auto simp: create_tests_v1_def py_defs split: prod.splits sum.splits)

lemma analyze_v1_raise:
  assumes "analyze_code_v1 self [(''code'', code)] (runtime w) = (Inl e, s)"
  shows "analyze_v1 self code w =
     (Inr [''issues'' \<mapsto> ''Analysis error: '' @ str e,
           ''suggestions'' \<mapsto> ''No suggestions available''],
      w\<lparr>runtime := s, calls := calls w @ [(''analyze_code'', [(''code'', code)])]\<rparr>)"
  using assms by (simp add: analyze_v1_def py_defs)

lemma analyze_v1_ok:
  assumes "analyze_code_v1 self [(''code'', code)] (runtime w) = (Inr p, s)"
    and "p ''issues'' = Inr i" and "p ''suggestions'' = Inr sg"
  shows "analyze_v1 self code w =
     (Inr [''issues'' \<mapsto> i, ''suggestions'' \<mapsto> sg],
      w\<lparr>runtime := s, calls := calls w @ [(''analyze_code'', [(''code'', code)])]\<rparr>)"
  using assms by (simp add: analyze_v1_def py_defs)

lemma optimize_v1_raise:
  assumes "optimize_code_v1 self [(''code'', code), (''suggestions'', sg)] (runtime w)
             = (Inl e, s)"
  shows "optimize_v1 self code sg w =
     (Inr (''Optimization error: '' @ str e),
      w\<lparr>runtime := s,
        calls := calls w @ [(''optimize_code'', [(''code'', code), (''suggestions'', sg)])]\<rparr>)"
  using assms by (simp add: optimize_v1_def py_defs)

lemma optimize_v1_ok:
  assumes "optimize_code_v1 self [(''code'', code), (''suggestions'', sg)] (runtime w)
             = (Inr p, s)"
    and "p ''optimized_code'' = Inr oc"
  shows "optimize_v1 self code sg w =
     (Inr oc,
      w\<lparr>runtime := s,
        calls := calls w @ [(''optimize_code'', [(''code'', code), (''suggestions'', sg)])]\<rparr>)"
  using assms by (simp add: optimize_v1_def py_defs)

lemma create_tests_v1_raise:
  assumes "generate_tests_v1 self [(''code'', code)] (runtime w) = (Inl e, s)"
  shows "create_tests_v1 self code w =
     (Inr [''test_cases'' \<mapsto> ''Test generation failed: '' @ str e,
           ''test_code'' \<mapsto> ''Unable to generate test code''],
      w\<lparr>runtime := s, calls := calls w @ [(''generate_tests'', [(''code'', code)])]\<rparr>)"
  using assms by (simp add: create_tests_v1_def py_defs)

lemma create_tests_v1_ok:
  assumes "generate_tests_v1 self [(''code'', code)] (runtime w) = (Inr p, s)"
    and "p ''test_cases'' = Inr tc" and "p ''test_code'' = Inr td"
  shows "create_tests_v1 self code w =
     (Inr [''test_cases'' \<mapsto> tc, ''test_code'' \<mapsto> td],
      w\<lparr>runtime := s, calls := calls w @ [(''generate_tests'', [(''code'', code)])]\<rparr>)"
  using assms by (simp add: create_tests_v1_def py_defs)

subsection \<open>What the orchestrator does with three stage results\<close>

lemma process_v1_run:
  assumes "analyze_v1 (analyzer_v1 self) code w = (Inr an, w1)"
    and "an ''issues'' = Some i" and "an ''suggestions'' = Some sg"
    and "optimize_v1 (optimizer_v1 self) code sg w1 = (Inr oc, w2)"
    and "create_tests_v1 (tester_v1 self) code w2 = (Inr ts, w3)"
    and "ts ''test_cases'' = Some tc" and "ts ''test_code'' = Some td"
  shows "process_v1 self code w =
     (Inr [''issues'' \<mapsto> i, ''suggestions'' \<mapsto> sg, ''optimized_code'' \<mapsto> oc,
           ''test_cases'' \<mapsto> tc, ''test_code'' \<mapsto> td], w3)"
  using assms by (simp add: process_v1_def py_bind_def py_return_def getitem_def)

text \<open>
  Every run of the orchestrator is the three stage runs one after the other, each in the
  world the one before left behind, followed by the assembly of the five fields.
\<close>

lemma process_v1_seq:
  fixes self :: "'w CodeForge_v1"
  defines "SA \<equiv> analyzer_v1 self" and "SO \<equiv> optimizer_v1 self" and "ST \<equiv> tester_v1 self"
  shows "\<exists>i sg oc tc td.
     analyze_v1 SA code w =
       (Inr [''issues'' \<mapsto> i, ''suggestions'' \<mapsto> sg], snd (analyze_v1 SA code w)) \<and>
     optimize_v1 SO code sg (snd (analyze_v1 SA code w)) =
       (Inr oc, snd (optimize_v1 SO code sg (snd (analyze_v1 SA code w)))) \<and>
     create_tests_v1 ST code (snd (optimize_v1 SO code sg (snd (analyze_v1 SA code w)))) =
       (Inr [''test_cases'' \<mapsto> tc, ''test_code'' \<mapsto> td],
        snd (create_tests_v1 ST code
               (snd (optimize_v1 SO code sg (snd (analyze_v1 SA code w)))))) \<and>
     process_v1 self code w =
       (Inr [''issues'' \<mapsto> i, ''suggestions'' \<mapsto> sg, ''optimized_code'' \<mapsto> oc,
             ''test_cases'' \<mapsto> tc, ''test_code'' \<mapsto> td],
        snd (create_tests_v1 ST code
               (snd (optimize_v1 SO code sg (snd (analyze_v1 SA code w))))))"
proof -
  define w1 where "w1 = snd (analyze_v1 SA code w)"
  obtain i sg where a:
    "fst (analyze_v1 SA code w) = Inr [''issues'' \<mapsto> i, ''suggestions'' \<mapsto> sg]"
    using analyze_v1_fst by blast
  have a': "analyze_v1 SA code w = (Inr [''issues'' \<mapsto> i, ''suggestions'' \<mapsto> sg], w1)"
    unfolding w1_def using a by (metis prod.collapse)
  define w2 where "w2 = snd (optimize_v1 SO code sg w1)"
  obtain oc where b: "fst (optimize_v1 SO code sg w1) = Inr oc"
    using optimize_v1_fst by blast
  have b': "optimize_v1 SO code sg w1 = (Inr oc, w2)"
    unfolding w2_def using b by (metis prod.collapse)
  define w3 where "w3 = snd (create_tests_v1 ST code w2)"
  obtain tc td where c:
    "fst (create_tests_v1 ST code w2) = Inr [''test_cases'' \<mapsto> tc, ''test_code'' \<mapsto> td]"
    using create_tests_v1_fst by blast
  have c': "create_tests_v1 ST code w2 =
      (Inr [''test_cases'' \<mapsto> tc, ''test_code'' \<mapsto> td], w3)"
    unfolding w3_def using c by (metis prod.collapse)
  have r: "process_v1 self code w =
     (Inr [''issues'' \<mapsto> i, ''suggestions'' \<mapsto> sg, ''optimized_code'' \<mapsto> oc,
           ''test_cases'' \<mapsto> tc, ''test_code'' \<mapsto> td], w3)"
    by (rule process_v1_run[OF a'[unfolded SA_def] _ _ b'[unfolded SO_def] c'[unfolded ST_def]])
      simp_all
  show ?thesis
    apply (rule exI[of _ i], rule exI[of _ sg], rule exI[of _ oc])
    apply (rule exI[of _ tc], rule exI[of _ td])
    apply (fold w1_def)
    apply (fold w2_def)
    apply (fold w3_def)
    apply (intro conjI)
       apply (rule a' b' c' r)+
    done
qed

lemma process_v1_calls:
  assumes "fst (analyze_v1 (analyzer_v1 self) code w) =
             Inr [''issues'' \<mapsto> i, ''suggestions'' \<mapsto> sg]"
  shows "calls (snd (process_v1 self code w)) =
     calls w @ [(''analyze_code'', [(''code'', code)]),
                (''optimize_code'', [(''code'', code), (''suggestions'', sg)]),
                (''generate_tests'', [(''code'', code)])]"
    and "runtime (snd (process_v1 self code w)) =
      snd (generate_tests_v1 (tester_v1 self) [(''code'', code)]
        (snd (optimize_code_v1 (optimizer_v1 self) [(''code'', code), (''suggestions'', sg)]
          (snd (analyze_code_v1 (analyzer_v1 self) [(''code'', code)] (runtime w))))))"
    and "lm (snd (process_v1 self code w)) = lm w"
proof -
  obtain i' sg' oc tc td where
    a: "analyze_v1 (analyzer_v1 self) code w =
       (Inr [''issues'' \<mapsto> i', ''suggestions'' \<mapsto> sg'],
        snd (analyze_v1 (analyzer_v1 self) code w))"
    and r: "process_v1 self code w =
       (Inr [''issues'' \<mapsto> i', ''suggestions'' \<mapsto> sg', ''optimized_code'' \<mapsto> oc,
             ''test_cases'' \<mapsto> tc, ''test_code'' \<mapsto> td],
        snd (create_tests_v1 (tester_v1 self) code
               (snd (optimize_v1 (optimizer_v1 self) code sg'
                  (snd (analyze_v1 (analyzer_v1 self) code w))))))"
    using process_v1_seq[of self code w] by blast
  have "fst (analyze_v1 (analyzer_v1 self) code w) =
          Inr [''issues'' \<mapsto> i', ''suggestions'' \<mapsto> sg']"
    using a by (metis fst_conv)
  with assms
  have "[''issues'' \<mapsto> i', ''suggestions'' \<mapsto> sg'] = [''issues'' \<mapsto> i, ''suggestions'' \<mapsto> sg]"
    by simp
  then have "[''issues'' \<mapsto> i', ''suggestions'' \<mapsto> sg'] ''suggestions'' =
             [''issues'' \<mapsto> i, ''suggestions'' \<mapsto> sg] ''suggestions''"
    by (rule arg_cong)
  then have sg: "sg' = sg" by simp
  show "calls (snd (process_v1 self code w)) =
     calls w @ [(''analyze_code'', [(''code'', code)]),
                (''optimize_code'', [(''code'', code), (''suggestions'', sg)]),
                (''generate_tests'', [(''code'', code)])]"
    by (simp add: r sg create_tests_v1_snd optimize_v1_snd analyze_v1_snd)
  show "runtime (snd (process_v1 self code w)) =
      snd (generate_tests_v1 (tester_v1 self) [(''code'', code)]
        (snd (optimize_code_v1 (optimizer_v1 self) [(''code'', code), (''suggestions'', sg)]
          (snd (analyze_code_v1 (analyzer_v1 self) [(''code'', code)] (runtime w))))))"
    by (simp add: r sg create_tests_v1_snd optimize_v1_snd analyze_v1_snd)
  show "lm (snd (process_v1 self code w)) = lm w"
    by (simp add: r sg create_tests_v1_snd optimize_v1_snd analyze_v1_snd)
qed

lemma process_v1_fields:
  "\<exists>r. fst (process_v1 self code w) = Inr r \<and>
       dom r = {''issues'', ''suggestions'', ''optimized_code'', ''test_cases'', ''test_code''}"
proof -
  obtain i sg oc tc td where
    "fst (process_v1 self code w) =
       Inr [''issues'' \<mapsto> i, ''suggestions'' \<mapsto> sg, ''optimized_code'' \<mapsto> oc,
            ''test_cases'' \<mapsto> tc, ''test_code'' \<mapsto> td]"
    using process_v1_seq[of self code w] by (metis fst_conv)
  then show ?thesis by auto
qed

subsection \<open>The second program's stages and orchestrator are the first program's\<close>

lemma analyze_v3_eq:
  "analyze_v3 self code = analyze_v1 \<lparr>analyze_code_v1 = analyze_code_v3 self\<rparr> code"
  by (simp add: analyze_v3_def analyze_v1_def)

lemma optimize_v3_eq:
  "optimize_v3 self code sg = optimize_v1 \<lparr>optimize_code_v1 = optimize_code_v3 self\<rparr> code sg"
  by (simp add: optimize_v3_def optimize_v1_def)

lemma create_tests_v3_eq:
  "create_tests_v3 self code =
     create_tests_v1 \<lparr>generate_tests_v1 = generate_tests_v3 self\<rparr> code"
  by (simp add: create_tests_v3_def create_tests_v1_def)

lemma process_v3_eq:
  "process_v3 self code =
     process_v1
       \<lparr>analyzer_v1 = \<lparr>analyze_code_v1 = analyze_code_v3 (analyzer_v3 self)\<rparr>,
        optimizer_v1 = \<lparr>optimize_code_v1 = optimize_code_v3 (optimizer_v3 self)\<rparr>,
        tester_v1 = \<lparr>generate_tests_v1 = generate_tests_v3 (tester_v3 self)\<rparr>\<rparr> code"
  by (simp add: process_v3_def process_v1_def analyze_v3_eq optimize_v3_eq create_tests_v3_eq)

lemma process_code_v3_eq:
  "process_code_v3 self code =
     process_code_v1
       \<lparr>analyzer_v1 = \<lparr>analyze_code_v1 = analyze_code_v3 (analyzer_v3 self)\<rparr>,
        optimizer_v1 = \<lparr>optimize_code_v1 = optimize_code_v3 (optimizer_v3 self)\<rparr>,
        tester_v1 = \<lparr>generate_tests_v1 = generate_tests_v3 (tester_v3 self)\<rparr>\<rparr> code"
  by (simp add: process_code_v3_def process_code_v1_def process_v3_eq)

subsection \<open>The tools of the second program\<close>

text \<open>
  C9. Each of the six tool functions handed to the reasoning loop of the second program
  returns one fixed descriptive string: whatever two arguments it is given, the two
  results are equal, and equal to the literal in the source. A tool is a function from
  its argument to its result and nothing else, so it analyses, refactors and runs
  nothing.
\<close>

theorem tools_static:
  "CodeAnalyzer__analyze_code x = CodeAnalyzer__analyze_code y \<and>
   CodeAnalyzer__generate_suggestions x = CodeAnalyzer__generate_suggestions y \<and>
   CodeOptimizer__optimize_code x = CodeOptimizer__optimize_code y \<and>
   CodeOptimizer__refactor_code x = CodeOptimizer__refactor_code y \<and>
   TestGenerator__generate_test_cases x = TestGenerator__generate_test_cases y \<and>
   TestGenerator__write_test_code x = TestGenerator__write_test_code y \<and>
   CodeAnalyzer__analyze_code x = ''Analyzing code for potential issues...'' \<and>
   CodeAnalyzer__generate_suggestions x =
     ''Generating optimization suggestions based on issues...'' \<and>
   CodeOptimizer__optimize_code x = ''Optimizing code structure...'' \<and>
   CodeOptimizer__refactor_code x = ''Refactoring code for better readability...'' \<and>
   TestGenerator__generate_test_cases x = ''Generating test cases...'' \<and>
   TestGenerator__write_test_code x = ''Writing test code implementation...''"
  by (simp add: CodeAnalyzer__analyze_code_def CodeAnalyzer__generate_suggestions_def
      CodeOptimizer__optimize_code_def CodeOptimizer__refactor_code_def
      TestGenerator__generate_test_cases_def TestGenerator__write_test_code_def)

subsection \<open>Sample runs\<close>

text \<open>
  The definitions compute. With every model call refused, the orchestrator of the first
  program returns the five placeholders after three calls; with every call answered,
  the click handler returns the five generated texts; a prediction that lacks an output
  field is a failure of its stage like any other.
\<close>

lemma process_v1_all_refused:
  "process_v1
     \<lparr>analyzer_v1 = \<lparr>analyze_code_v1 = refusing\<rparr>,
      optimizer_v1 = \<lparr>optimize_code_v1 = refusing\<rparr>,
      tester_v1 = \<lparr>generate_tests_v1 = refusing\<rparr>\<rparr> ''x = 1'' sample_world =
   (Inr [''issues'' \<mapsto> ''Analysis error: connection refused'',
         ''suggestions'' \<mapsto> ''No suggestions available'',
         ''optimized_code'' \<mapsto> ''Optimization error: connection refused'',
         ''test_cases'' \<mapsto> ''Test generation failed: connection refused'',
         ''test_code'' \<mapsto> ''Unable to generate test code''],
    \<lparr>runtime = 3, lm = None,
     calls = [(''analyze_code'', [(''code'', ''x = 1'')]),
              (''optimize_code'',
                 [(''code'', ''x = 1''), (''suggestions'', ''No suggestions available'')]),
              (''generate_tests'', [(''code'', ''x = 1'')])]\<rparr>)"
  by (simp add: process_v1_def analyze_v1_def optimize_v1_def create_tests_v1_def
      py_defs sample_defs)

lemma process_code_v1_all_answered:
  "process_code_v1 (fst (CodeForge_init_v1 sample_dspy sample_world)) ''x = 1''
     (snd (CodeForge_init_v1 sample_dspy sample_world)) =
   (Inr (''generated issues'', ''generated suggestions'', ''generated optimized_code'',
         ''generated test_cases'', ''generated test_code''),
    \<lparr>runtime = 3, lm = Some OllamaLocal_v1,
     calls = [(''analyze_code'', [(''code'', ''x = 1'')]),
              (''optimize_code'',
                 [(''code'', ''x = 1''), (''suggestions'', ''generated suggestions'')]),
              (''generate_tests'', [(''code'', ''x = 1'')])]\<rparr>)"
  by (simp add: process_code_v1_def process_v1_def analyze_v1_def optimize_v1_def
      create_tests_v1_def CodeForge_init_v1_def CodeAnalyzer_init_v1_def
      CodeOptimizer_init_v1_def TestGenerator_init_v1_def configure_def
      strip_def isspace_def py_defs sample_defs)

lemma analyze_v1_missing_field:
  "fst (analyze_v1
     \<lparr>analyze_code_v1 = (\<lambda>kw s.
        (Inr (\<lambda>field. if field = ''issues'' then Inr ''a slow loop''
                      else Inl (Exception ''no such attribute'')), s))\<rparr>
     ''x = 1'' sample_world) =
   Inr [''issues'' \<mapsto> ''Analysis error: no such attribute'',
        ''suggestions'' \<mapsto> ''No suggestions available'']"
  by (simp add: analyze_v1_def py_defs sample_defs)

subsection \<open>The result record\<close>

text \<open>
  C1. For every non-empty input string the orchestrator of either program returns, and
  what it returns is a dictionary whose keys are exactly \<open>issues\<close>, \<open>suggestions\<close>,
  \<open>optimized_code\<close>, \<open>test_cases\<close> and \<open>test_code\<close>, each bound to a string. This
  holds for every behaviour of the three modules, so for the run in which every model
  call succeeds and for every run in which some stage fails.
\<close>

theorem process_five_fields:
  assumes "code \<noteq> []"
  shows "(\<exists>r. fst (process_v1 f1 code w) = Inr r \<and>
            dom r = {''issues'', ''suggestions'', ''optimized_code'', ''test_cases'',
                     ''test_code''}) \<and>
         (\<exists>r. fst (process_v3 f3 code w) = Inr r \<and>
            dom r = {''issues'', ''suggestions'', ''optimized_code'', ''test_cases'',
                     ''test_code''})"
  by (simp only: process_v3_eq process_v1_fields simp_thms)

theorem process_five_fields_witness:
  "''x = 1'' \<noteq> [] \<and>
   (\<exists>r. fst (process_v1
              \<lparr>analyzer_v1 = \<lparr>analyze_code_v1 = refusing\<rparr>,
               optimizer_v1 = \<lparr>optimize_code_v1 = answering\<rparr>,
               tester_v1 = \<lparr>generate_tests_v1 = refusing\<rparr>\<rparr> ''x = 1'' sample_world) = Inr r \<and>
        dom r = {''issues'', ''suggestions'', ''optimized_code'', ''test_cases'',
                 ''test_code''}) \<and>
   (\<exists>r. fst (process_v3 (fst (CodeForge_init_v3 sample_dspy sample_world)) ''x = 1''
              sample_world) = Inr r \<and>
        dom r = {''issues'', ''suggestions'', ''optimized_code'', ''test_cases'',
                 ''test_code''})"
  using process_five_fields
    [of "''x = 1''"
        "\<lparr>analyzer_v1 = \<lparr>analyze_code_v1 = refusing\<rparr>,
          optimizer_v1 = \<lparr>optimize_code_v1 = answering\<rparr>,
          tester_v1 = \<lparr>generate_tests_v1 = refusing\<rparr>\<rparr>"
        sample_world "fst (CodeForge_init_v3 sample_dspy sample_world)"]
  by simp

subsection \<open>Containment of failures in the stages\<close>

text \<open>
  C2. Whatever exception the model call of a stage raises, the stage returns: the
  Analyzer a dictionary whose \<open>issues\<close> is \<open>Analysis error: \<close> followed by the
  exception's message and whose \<open>suggestions\<close> is the fixed text, the Optimizer the
  single string \<open>Optimization error: \<close> followed by the message, the Test-generator a
  dictionary whose \<open>test_cases\<close> is \<open>Test generation failed: \<close> followed by the message
  and whose \<open>test_code\<close> is the fixed text. Beyond that, no behaviour of the module and
  of its prediction makes a stage raise: the three stages always return a value.
\<close>

theorem stages_contain_failures:
  "(analyze_code_v1 sa [(''code'', code)] (runtime w) = (Inl e, s) \<longrightarrow>
      analyze_v1 sa code w =
        (Inr [''issues'' \<mapsto> ''Analysis error: '' @ str e,
              ''suggestions'' \<mapsto> ''No suggestions available''],
         w\<lparr>runtime := s, calls := calls w @ [(''analyze_code'', [(''code'', code)])]\<rparr>)) \<and>
   (optimize_code_v1 so [(''code'', code), (''suggestions'', sg)] (runtime w) = (Inl e, s) \<longrightarrow>
      optimize_v1 so code sg w =
        (Inr (''Optimization error: '' @ str e),
         w\<lparr>runtime := s,
           calls := calls w @
             [(''optimize_code'', [(''code'', code), (''suggestions'', sg)])]\<rparr>)) \<and>
   (generate_tests_v1 st [(''code'', code)] (runtime w) = (Inl e, s) \<longrightarrow>
      create_tests_v1 st code w =
        (Inr [''test_cases'' \<mapsto> ''Test generation failed: '' @ str e,
              ''test_code'' \<mapsto> ''Unable to generate test code''],
         w\<lparr>runtime := s, calls := calls w @ [(''generate_tests'', [(''code'', code)])]\<rparr>)) \<and>
   (\<exists>d. fst (analyze_v1 sa code w) = Inr d) \<and>
   (\<exists>v. fst (optimize_v1 so code sg w) = Inr v) \<and>
   (\<exists>d. fst (create_tests_v1 st code w) = Inr d)"
proof (intro conjI impI)
  show "\<exists>d. fst (analyze_v1 sa code w) = Inr d"
    using analyze_v1_fst[of sa code w] by blast
  show "\<exists>v. fst (optimize_v1 so code sg w) = Inr v"
    by (rule optimize_v1_fst)
  show "\<exists>d. fst (create_tests_v1 st code w) = Inr d"
    using create_tests_v1_fst[of st code w] by blast
qed (erule analyze_v1_raise optimize_v1_raise create_tests_v1_raise)+

theorem stages_contain_failures_witness:
  "analyze_code_v1 \<lparr>analyze_code_v1 = refusing\<rparr> [(''code'', ''x = 1'')] (runtime sample_world)
     = (Inl (Exception ''connection refused''), 1) \<and>
   analyze_v1 \<lparr>analyze_code_v1 = refusing\<rparr> ''x = 1'' sample_world =
     (Inr [''issues'' \<mapsto> ''Analysis error: connection refused'',
           ''suggestions'' \<mapsto> ''No suggestions available''],
      \<lparr>runtime = 1, lm = None, calls = [(''analyze_code'', [(''code'', ''x = 1'')])]\<rparr>) \<and>
   optimize_code_v1 \<lparr>optimize_code_v1 = refusing\<rparr>
       [(''code'', ''x = 1''), (''suggestions'', ''inline it'')] (runtime sample_world)
     = (Inl (Exception ''connection refused''), 1) \<and>
   optimize_v1 \<lparr>optimize_code_v1 = refusing\<rparr> ''x = 1'' ''inline it'' sample_world =
     (Inr ''Optimization error: connection refused'',
      \<lparr>runtime = 1, lm = None,
       calls = [(''optimize_code'', [(''code'', ''x = 1''), (''suggestions'', ''inline it'')])]\<rparr>) \<and>
   generate_tests_v1 \<lparr>generate_tests_v1 = refusing\<rparr> [(''code'', ''x = 1'')]
       (runtime sample_world)
     = (Inl (Exception ''connection refused''), 1) \<and>
   create_tests_v1 \<lparr>generate_tests_v1 = refusing\<rparr> ''x = 1'' sample_world =
     (Inr [''test_cases'' \<mapsto> ''Test generation failed: connection refused'',
           ''test_code'' \<mapsto> ''Unable to generate test code''],
      \<lparr>runtime = 1, lm = None, calls = [(''generate_tests'', [(''code'', ''x = 1'')])]\<rparr>)"
  using stages_contain_failures
    [of "\<lparr>analyze_code_v1 = refusing\<rparr>" "''x = 1''" sample_world
        "Exception ''connection refused''" 1
        "\<lparr>optimize_code_v1 = refusing\<rparr>" "''inline it''"
        "\<lparr>generate_tests_v1 = refusing\<rparr>"]
  by (simp add: sample_defs)

subsection \<open>A failed Analyzer still feeds the Optimizer\<close>

text \<open>
  C3. If the Analyzer's model call raises, the orchestrator goes on: the Optimizer's
  module is called next, with the keyword argument \<open>suggestions\<close> equal to the
  Analyzer's placeholder \<open>No suggestions available\<close>, and the \<open>optimized_code\<close> of the
  result is whatever the Optimizer stage returns when it is run with that text as its
  suggestions in the world the Analyzer left behind. The placeholder is not examined
  anywhere on the way.
\<close>

theorem analyzer_failure_feeds_optimizer:
  assumes "analyze_code_v1 (analyzer_v1 self) [(''code'', code)] (runtime w) = (Inl e, s)"
  shows "\<exists>oc tc td.
     fst (optimize_v1 (optimizer_v1 self) code ''No suggestions available''
            (w\<lparr>runtime := s,
               calls := calls w @ [(''analyze_code'', [(''code'', code)])]\<rparr>)) = Inr oc \<and>
     fst (process_v1 self code w) =
       Inr [''issues'' \<mapsto> ''Analysis error: '' @ str e,
            ''suggestions'' \<mapsto> ''No suggestions available'',
            ''optimized_code'' \<mapsto> oc,
            ''test_cases'' \<mapsto> tc, ''test_code'' \<mapsto> td] \<and>
     calls (snd (process_v1 self code w)) =
       calls w @
         [(''analyze_code'', [(''code'', code)]),
          (''optimize_code'',
             [(''code'', code), (''suggestions'', ''No suggestions available'')]),
          (''generate_tests'', [(''code'', code)])]"
proof -
  let ?w1 = "w\<lparr>runtime := s, calls := calls w @ [(''analyze_code'', [(''code'', code)])]\<rparr>"
  let ?an = "[''issues'' \<mapsto> ''Analysis error: '' @ str e,
              ''suggestions'' \<mapsto> ''No suggestions available'']"
  have a: "analyze_v1 (analyzer_v1 self) code w = (Inr ?an, ?w1)"
    by (rule analyze_v1_raise[OF assms])
  define w2 where
    "w2 = snd (optimize_v1 (optimizer_v1 self) code ''No suggestions available'' ?w1)"
  obtain oc where
    b: "fst (optimize_v1 (optimizer_v1 self) code ''No suggestions available'' ?w1) = Inr oc"
    using optimize_v1_fst by blast
  have b': "optimize_v1 (optimizer_v1 self) code ''No suggestions available'' ?w1 = (Inr oc, w2)"
    unfolding w2_def using b by (metis prod.collapse)
  define w3 where "w3 = snd (create_tests_v1 (tester_v1 self) code w2)"
  obtain tc td where c: "fst (create_tests_v1 (tester_v1 self) code w2) =
      Inr [''test_cases'' \<mapsto> tc, ''test_code'' \<mapsto> td]"
    using create_tests_v1_fst by blast
  have c': "create_tests_v1 (tester_v1 self) code w2 =
      (Inr [''test_cases'' \<mapsto> tc, ''test_code'' \<mapsto> td], w3)"
    unfolding w3_def using c by (metis prod.collapse)
  have r: "process_v1 self code w =
      (Inr [''issues'' \<mapsto> ''Analysis error: '' @ str e,
            ''suggestions'' \<mapsto> ''No suggestions available'',
            ''optimized_code'' \<mapsto> oc,
            ''test_cases'' \<mapsto> tc, ''test_code'' \<mapsto> td], w3)"
    by (rule process_v1_run[OF a _ _ b' c']) simp_all
  have l: "calls (snd (process_v1 self code w)) =
       calls w @
         [(''analyze_code'', [(''code'', code)]),
          (''optimize_code'',
             [(''code'', code), (''suggestions'', ''No suggestions available'')]),
          (''generate_tests'', [(''code'', code)])]"
    by (rule process_v1_calls(1)[where i = "''Analysis error: '' @ str e"]) (simp add: a)
  have r': "fst (process_v1 self code w) =
       Inr [''issues'' \<mapsto> ''Analysis error: '' @ str e,
            ''suggestions'' \<mapsto> ''No suggestions available'',
            ''optimized_code'' \<mapsto> oc,
            ''test_cases'' \<mapsto> tc, ''test_code'' \<mapsto> td]"
    using r by (metis fst_conv)
  show ?thesis
    apply (rule exI[of _ oc], rule exI[of _ tc], rule exI[of _ td])
    apply (intro conjI)
      apply (rule b)
     apply (rule r')
    apply (rule l)
    done
qed

theorem analyzer_failure_feeds_optimizer_witness:
  "analyze_code_v1 \<lparr>analyze_code_v1 = refusing\<rparr> [(''code'', ''x = 1'')] (runtime sample_world)
     = (Inl (Exception ''connection refused''), 1) \<and>
   (\<exists>oc tc td.
     fst (optimize_v1 \<lparr>optimize_code_v1 = answering\<rparr> ''x = 1'' ''No suggestions available''
            (sample_world\<lparr>runtime := 1,
               calls := calls sample_world @ [(''analyze_code'', [(''code'', ''x = 1'')])]\<rparr>))
       = Inr oc \<and>
     fst (process_v1
            \<lparr>analyzer_v1 = \<lparr>analyze_code_v1 = refusing\<rparr>,
             optimizer_v1 = \<lparr>optimize_code_v1 = answering\<rparr>,
             tester_v1 = \<lparr>generate_tests_v1 = answering\<rparr>\<rparr> ''x = 1'' sample_world) =
       Inr [''issues'' \<mapsto> ''Analysis error: '' @ str (Exception ''connection refused''),
            ''suggestions'' \<mapsto> ''No suggestions available'',
            ''optimized_code'' \<mapsto> oc,
            ''test_cases'' \<mapsto> tc, ''test_code'' \<mapsto> td] \<and>
     calls (snd (process_v1
            \<lparr>analyzer_v1 = \<lparr>analyze_code_v1 = refusing\<rparr>,
             optimizer_v1 = \<lparr>optimize_code_v1 = answering\<rparr>,
             tester_v1 = \<lparr>generate_tests_v1 = answering\<rparr>\<rparr> ''x = 1'' sample_world)) =
       calls sample_world @
         [(''analyze_code'', [(''code'', ''x = 1'')]),
          (''optimize_code'',
             [(''code'', ''x = 1''), (''suggestions'', ''No suggestions available'')]),
          (''generate_tests'', [(''code'', ''x = 1'')])])"
proof -
  have h: "analyze_code_v1
       (analyzer_v1 \<lparr>analyzer_v1 = \<lparr>analyze_code_v1 = refusing\<rparr>,
             optimizer_v1 = \<lparr>optimize_code_v1 = answering\<rparr>,
             tester_v1 = \<lparr>generate_tests_v1 = answering\<rparr>\<rparr>)
       [(''code'', ''x = 1'')] (runtime sample_world)
     = (Inl (Exception ''connection refused''), 1)"
    by (simp add: sample_defs)
  show ?thesis
    using h analyzer_failure_feeds_optimizer[OF h] by simp
qed

subsection \<open>Order of the stages and what each one is given\<close>

text \<open>
  C5. On every input the orchestrator makes exactly three module calls, in this order:
  the Analyzer's with the code, the Optimizer's with the code and the \<open>suggestions\<close>
  that the Analyzer stage returned, the Test-generator's with the code and nothing else.
  The runtime's state is handed from each call to the next in that order, and the
  \<open>suggestions\<close> of the result are those same suggestions.
\<close>

theorem process_order:
  "\<exists>i sg oc tc td.
     fst (analyze_v1 (analyzer_v1 self) code w) =
       Inr [''issues'' \<mapsto> i, ''suggestions'' \<mapsto> sg] \<and>
     fst (process_v1 self code w) =
       Inr [''issues'' \<mapsto> i, ''suggestions'' \<mapsto> sg, ''optimized_code'' \<mapsto> oc,
            ''test_cases'' \<mapsto> tc, ''test_code'' \<mapsto> td] \<and>
     calls (snd (process_v1 self code w)) =
       calls w @
         [(''analyze_code'', [(''code'', code)]),
          (''optimize_code'', [(''code'', code), (''suggestions'', sg)]),
          (''generate_tests'', [(''code'', code)])] \<and>
     runtime (snd (process_v1 self code w)) =
       snd (generate_tests_v1 (tester_v1 self) [(''code'', code)]
         (snd (optimize_code_v1 (optimizer_v1 self)
                 [(''code'', code), (''suggestions'', sg)]
           (snd (analyze_code_v1 (analyzer_v1 self) [(''code'', code)] (runtime w))))))"
proof -
  obtain i sg oc tc td where
    a: "analyze_v1 (analyzer_v1 self) code w =
       (Inr [''issues'' \<mapsto> i, ''suggestions'' \<mapsto> sg],
        snd (analyze_v1 (analyzer_v1 self) code w))"
    and r: "process_v1 self code w =
       (Inr [''issues'' \<mapsto> i, ''suggestions'' \<mapsto> sg, ''optimized_code'' \<mapsto> oc,
             ''test_cases'' \<mapsto> tc, ''test_code'' \<mapsto> td],
        snd (create_tests_v1 (tester_v1 self) code
               (snd (optimize_v1 (optimizer_v1 self) code sg
                  (snd (analyze_v1 (analyzer_v1 self) code w))))))"
    using process_v1_seq[of self code w] by blast
  have a': "fst (analyze_v1 (analyzer_v1 self) code w) =
      Inr [''issues'' \<mapsto> i, ''suggestions'' \<mapsto> sg]"
    using a by (metis fst_conv)
  have r': "fst (process_v1 self code w) =
       Inr [''issues'' \<mapsto> i, ''suggestions'' \<mapsto> sg, ''optimized_code'' \<mapsto> oc,
            ''test_cases'' \<mapsto> tc, ''test_code'' \<mapsto> td]"
    using r by (metis fst_conv)
  show ?thesis
    apply (rule exI[of _ i], rule exI[of _ sg], rule exI[of _ oc])
    apply (rule exI[of _ tc], rule exI[of _ td])
    apply (intro conjI)
       apply (rule a')
      apply (rule r')
     apply (rule process_v1_calls(1)[OF a'])
    apply (rule process_v1_calls(2)[OF a'])
    done
qed

subsection \<open>A failure in one stage leaves the other stages' fields alone\<close>

text \<open>
  C6. If the Analyzer's and the Optimizer's model calls succeed and their predictions
  have the output fields, and the Test-generator's model call raises, then the
  \<open>issues\<close>, \<open>suggestions\<close> and \<open>optimized_code\<close> of the result are exactly what the
  Analyzer's and the Optimizer's predictions held, and only \<open>test_cases\<close> and
  \<open>test_code\<close> carry placeholder text.
\<close>

theorem test_generator_failure_frame:
  assumes "analyze_code_v1 (analyzer_v1 self) [(''code'', code)] (runtime w) = (Inr p1, s1)"
    and "p1 ''issues'' = Inr i" and "p1 ''suggestions'' = Inr sg"
    and "optimize_code_v1 (optimizer_v1 self) [(''code'', code), (''suggestions'', sg)] s1
           = (Inr p2, s2)"
    and "p2 ''optimized_code'' = Inr oc"
    and "generate_tests_v1 (tester_v1 self) [(''code'', code)] s2 = (Inl e, s3)"
  shows "fst (process_v1 self code w) =
     Inr [''issues'' \<mapsto> i, ''suggestions'' \<mapsto> sg, ''optimized_code'' \<mapsto> oc,
          ''test_cases'' \<mapsto> ''Test generation failed: '' @ str e,
          ''test_code'' \<mapsto> ''Unable to generate test code'']"
proof -
  let ?w1 = "w\<lparr>runtime := s1, calls := calls w @ [(''analyze_code'', [(''code'', code)])]\<rparr>"
  let ?w2 = "?w1\<lparr>runtime := s2,
     calls := calls ?w1 @ [(''optimize_code'', [(''code'', code), (''suggestions'', sg)])]\<rparr>"
  let ?w3 = "?w2\<lparr>runtime := s3,
     calls := calls ?w2 @ [(''generate_tests'', [(''code'', code)])]\<rparr>"
  have a: "analyze_v1 (analyzer_v1 self) code w =
      (Inr [''issues'' \<mapsto> i, ''suggestions'' \<mapsto> sg], ?w1)"
    by (rule analyze_v1_ok[OF assms(1-3)])
  have b: "optimize_v1 (optimizer_v1 self) code sg ?w1 = (Inr oc, ?w2)"
    by (rule optimize_v1_ok[where p = p2]) (simp_all add: assms)
  have c: "create_tests_v1 (tester_v1 self) code ?w2 =
      (Inr [''test_cases'' \<mapsto> ''Test generation failed: '' @ str e,
            ''test_code'' \<mapsto> ''Unable to generate test code''], ?w3)"
    by (rule create_tests_v1_raise) (simp add: assms)
  have "process_v1 self code w =
      (Inr [''issues'' \<mapsto> i, ''suggestions'' \<mapsto> sg, ''optimized_code'' \<mapsto> oc,
          ''test_cases'' \<mapsto> ''Test generation failed: '' @ str e,
          ''test_code'' \<mapsto> ''Unable to generate test code''], ?w3)"
    by (rule process_v1_run[OF a _ _ b c]) simp_all
  then show ?thesis by (metis fst_conv)
qed

theorem test_generator_failure_frame_witness:
  "fst (process_v1
          \<lparr>analyzer_v1 = \<lparr>analyze_code_v1 = answering\<rparr>,
           optimizer_v1 = \<lparr>optimize_code_v1 = answering\<rparr>,
           tester_v1 = \<lparr>generate_tests_v1 = refusing\<rparr>\<rparr> ''x = 1'' sample_world) =
     Inr [''issues'' \<mapsto> ''generated issues'',
          ''suggestions'' \<mapsto> ''generated suggestions'',
          ''optimized_code'' \<mapsto> ''generated optimized_code'',
          ''test_cases'' \<mapsto> ''Test generation failed: connection refused'',
          ''test_code'' \<mapsto> ''Unable to generate test code'']"
proof -
  let ?forge = "\<lparr>analyzer_v1 = \<lparr>analyze_code_v1 = answering\<rparr>,
           optimizer_v1 = \<lparr>optimize_code_v1 = answering\<rparr>,
           tester_v1 = \<lparr>generate_tests_v1 = refusing\<rparr>\<rparr>"
  let ?p = "\<lambda>field. Inr (''generated '' @ field) :: exn + string"
  have h1: "analyze_code_v1 (analyzer_v1 ?forge) [(''code'', ''x = 1'')] (runtime sample_world)
      = (Inr ?p, 1)"
    by (simp add: sample_defs)
  have h2: "?p ''issues'' = Inr ''generated issues''" by simp
  have h3: "?p ''suggestions'' = Inr ''generated suggestions''" by simp
  have h4: "optimize_code_v1 (optimizer_v1 ?forge)
      [(''code'', ''x = 1''), (''suggestions'', ''generated suggestions'')] 1 = (Inr ?p, 2)"
    by (simp add: sample_defs)
  have h5: "?p ''optimized_code'' = Inr ''generated optimized_code''" by simp
  have h6: "generate_tests_v1 (tester_v1 ?forge) [(''code'', ''x = 1'')] 2
      = (Inl (Exception ''connection refused''), 3)"
    by (simp add: sample_defs)
  show ?thesis
    using test_generator_failure_frame[OF h1 h2 h3 h4 h5 h6] by simp
qed

text \<open>
  C10. If the Analyzer's and the Test-generator's model calls succeed and their
  predictions have the output fields, and the Optimizer's model call raises, then the
  \<open>issues\<close>, \<open>suggestions\<close>, \<open>test_cases\<close> and \<open>test_code\<close> of the result are exactly
  what the two predictions held, and only \<open>optimized_code\<close> carries placeholder text.
  The \<open>suggestions\<close> of the result is the very string that the Optimizer's module was
  called with.
\<close>

theorem optimizer_failure_frame:
  assumes "analyze_code_v1 (analyzer_v1 self) [(''code'', code)] (runtime w) = (Inr p1, s1)"
    and "p1 ''issues'' = Inr i" and "p1 ''suggestions'' = Inr sg"
    and "optimize_code_v1 (optimizer_v1 self) [(''code'', code), (''suggestions'', sg)] s1
           = (Inl e, s2)"
    and "generate_tests_v1 (tester_v1 self) [(''code'', code)] s2 = (Inr p3, s3)"
    and "p3 ''test_cases'' = Inr tc" and "p3 ''test_code'' = Inr td"
  shows "fst (process_v1 self code w) =
     Inr [''issues'' \<mapsto> i, ''suggestions'' \<mapsto> sg,
          ''optimized_code'' \<mapsto> ''Optimization error: '' @ str e,
          ''test_cases'' \<mapsto> tc, ''test_code'' \<mapsto> td] \<and>
     calls (snd (process_v1 self code w)) =
       calls w @
         [(''analyze_code'', [(''code'', code)]),
          (''optimize_code'', [(''code'', code), (''suggestions'', sg)]),
          (''generate_tests'', [(''code'', code)])]"
proof -
  let ?w1 = "w\<lparr>runtime := s1, calls := calls w @ [(''analyze_code'', [(''code'', code)])]\<rparr>"
  let ?w2 = "?w1\<lparr>runtime := s2,
     calls := calls ?w1 @ [(''optimize_code'', [(''code'', code), (''suggestions'', sg)])]\<rparr>"
  let ?w3 = "?w2\<lparr>runtime := s3,
     calls := calls ?w2 @ [(''generate_tests'', [(''code'', code)])]\<rparr>"
  have a: "analyze_v1 (analyzer_v1 self) code w =
      (Inr [''issues'' \<mapsto> i, ''suggestions'' \<mapsto> sg], ?w1)"
    by (rule analyze_v1_ok[OF assms(1-3)])
  have b: "optimize_v1 (optimizer_v1 self) code sg ?w1 =
      (Inr (''Optimization error: '' @ str e), ?w2)"
    by (rule optimize_v1_raise) (simp add: assms)
  have c: "create_tests_v1 (tester_v1 self) code ?w2 =
      (Inr [''test_cases'' \<mapsto> tc, ''test_code'' \<mapsto> td], ?w3)"
    by (rule create_tests_v1_ok[where p = p3]) (simp_all add: assms)
  have r: "process_v1 self code w =
      (Inr [''issues'' \<mapsto> i, ''suggestions'' \<mapsto> sg,
          ''optimized_code'' \<mapsto> ''Optimization error: '' @ str e,
          ''test_cases'' \<mapsto> tc, ''test_code'' \<mapsto> td], ?w3)"
    by (rule process_v1_run[OF a _ _ b c]) simp_all
  have r1: "fst (process_v1 self code w) =
     Inr [''issues'' \<mapsto> i, ''suggestions'' \<mapsto> sg,
          ''optimized_code'' \<mapsto> ''Optimization error: '' @ str e,
          ''test_cases'' \<mapsto> tc, ''test_code'' \<mapsto> td]"
    using r by (metis fst_conv)
  have r2: "snd (process_v1 self code w) = ?w3"
    using r by (metis snd_conv)
  show ?thesis
    apply (intro conjI)
     apply (rule r1)
    apply (simp add: r2)
    done
qed

theorem optimizer_failure_frame_witness:
  "fst (process_v1
          \<lparr>analyzer_v1 = \<lparr>analyze_code_v1 = answering\<rparr>,
           optimizer_v1 = \<lparr>optimize_code_v1 = refusing\<rparr>,
           tester_v1 = \<lparr>generate_tests_v1 = answering\<rparr>\<rparr> ''x = 1'' sample_world) =
     Inr [''issues'' \<mapsto> ''generated issues'',
          ''suggestions'' \<mapsto> ''generated suggestions'',
          ''optimized_code'' \<mapsto> ''Optimization error: connection refused'',
          ''test_cases'' \<mapsto> ''generated test_cases'',
          ''test_code'' \<mapsto> ''generated test_code''] \<and>
   calls (snd (process_v1
          \<lparr>analyzer_v1 = \<lparr>analyze_code_v1 = answering\<rparr>,
           optimizer_v1 = \<lparr>optimize_code_v1 = refusing\<rparr>,
           tester_v1 = \<lparr>generate_tests_v1 = answering\<rparr>\<rparr> ''x = 1'' sample_world)) =
     [(''analyze_code'', [(''code'', ''x = 1'')]),
      (''optimize_code'', [(''code'', ''x = 1''), (''suggestions'', ''generated suggestions'')]),
      (''generate_tests'', [(''code'', ''x = 1'')])]"
proof -
  let ?forge = "\<lparr>analyzer_v1 = \<lparr>analyze_code_v1 = answering\<rparr>,
           optimizer_v1 = \<lparr>optimize_code_v1 = refusing\<rparr>,
           tester_v1 = \<lparr>generate_tests_v1 = answering\<rparr>\<rparr>"
  let ?p = "\<lambda>field. Inr (''generated '' @ field) :: exn + string"
  have h1: "analyze_code_v1 (analyzer_v1 ?forge) [(''code'', ''x = 1'')] (runtime sample_world)
      = (Inr ?p, 1)"
    by (simp add: sample_defs)
  have h2: "?p ''issues'' = Inr ''generated issues''" by simp
  have h3: "?p ''suggestions'' = Inr ''generated suggestions''" by simp
  have h4: "optimize_code_v1 (optimizer_v1 ?forge)
      [(''code'', ''x = 1''), (''suggestions'', ''generated suggestions'')] 1
      = (Inl (Exception ''connection refused''), 2)"
    by (simp add: sample_defs)
  have h5: "generate_tests_v1 (tester_v1 ?forge) [(''code'', ''x = 1'')] 2 = (Inr ?p, 3)"
    by (simp add: sample_defs)
  have h6: "?p ''test_cases'' = Inr ''generated test_cases''" by simp
  have h7: "?p ''test_code'' = Inr ''generated test_code''" by simp
  show ?thesis
    using optimizer_failure_frame[OF h1 h2 h3 h4 h5 h6 h7] by (simp add: sample_world_def)
qed

subsection \<open>The orchestrator never raises\<close>

text \<open>
  C7. On every input string, in every world and for every behaviour of the three
  modules, so also when every model call raises, the orchestrator of either program
  returns a value: the stages have turned each failure into text, and the dictionaries
  they return hold every key the orchestrator reads, so no subscript raises
  \<open>KeyError\<close>.
\<close>

theorem process_total:
  "(\<exists>r w'. process_v1 f1 code w = (Inr r, w')) \<and>
   (\<exists>r w'. process_v3 f3 code w = (Inr r, w'))"
proof -
  have "\<exists>r w'. process_v1 f code w = (Inr r, w')" for f :: "'a CodeForge_v1"
    using process_v1_fields[of f code w] by (metis prod.collapse)
  then show ?thesis by (simp only: process_v3_eq simp_thms)
qed

subsection \<open>Blank input is rejected before the pipeline\<close>

lemma strip_empty_iff: "strip s = [] \<longleftrightarrow> (\<forall>c\<in>set s. isspace c)"
proof
  assume "\<forall>c\<in>set s. isspace c"
  then have d: "dropWhile isspace s = []" by (simp add: dropWhile_eq_Nil_conv)
  show "strip s = []" unfolding strip_def d by simp
next
  assume e: "strip s = []"
  show "\<forall>c\<in>set s. isspace c"
  proof (rule ccontr)
    assume "\<not> (\<forall>c\<in>set s. isspace c)"
    then have n: "dropWhile isspace s \<noteq> []" by (simp add: dropWhile_eq_Nil_conv)
    then have "\<not> isspace (hd (dropWhile isspace s))" by (rule hd_dropWhile)
    moreover have "hd (dropWhile isspace s) \<in> set (rev (dropWhile isspace s))"
      using n by simp
    ultimately have "dropWhile isspace (rev (dropWhile isspace s)) \<noteq> []"
      by (metis dropWhile_eq_Nil_conv)
    with e show False by (simp add: strip_def)
  qed
qed

text \<open>
  C4. For every input string that is empty or holds whitespace only, the click handler
  of either program raises \<open>gr.Error\<close> with the message
  \<open>Please input some code to analyze!\<close> and leaves the world as it found it: no module
  has been called, the runtime has not been touched, the orchestrator has not run, and
  no tuple of result fields is returned.
\<close>

theorem blank_input_rejected:
  assumes "\<forall>c\<in>set code. isspace c"
  shows "process_code_v1 f1 code w =
           (Inl (Error ''Please input some code to analyze!''), w) \<and>
         process_code_v3 f3 code w =
           (Inl (Error ''Please input some code to analyze!''), w)"
  using assms
  by (simp add: process_code_v1_def process_code_v3_def strip_empty_iff py_raise_def)

theorem blank_input_rejected_witness:
  "isspace (CHR '' '') \<and> isspace (CHR 0x09) \<and> isspace (CHR 0x0A) \<and>
   process_code_v1
     \<lparr>analyzer_v1 = \<lparr>analyze_code_v1 = answering\<rparr>,
      optimizer_v1 = \<lparr>optimize_code_v1 = answering\<rparr>,
      tester_v1 = \<lparr>generate_tests_v1 = answering\<rparr>\<rparr>
     [CHR '' '', CHR 0x09, CHR 0x0A] sample_world =
     (Inl (Error ''Please input some code to analyze!''), sample_world) \<and>
   process_code_v3 (fst (CodeForge_init_v3 sample_dspy sample_world))
     [CHR '' '', CHR 0x09, CHR 0x0A] sample_world =
     (Inl (Error ''Please input some code to analyze!''), sample_world) \<and>
   process_code_v1
     \<lparr>analyzer_v1 = \<lparr>analyze_code_v1 = answering\<rparr>,
      optimizer_v1 = \<lparr>optimize_code_v1 = answering\<rparr>,
      tester_v1 = \<lparr>generate_tests_v1 = answering\<rparr>\<rparr> [] sample_world =
     (Inl (Error ''Please input some code to analyze!''), sample_world)"
proof -
  have s: "isspace (CHR '' '')" "isspace (CHR 0x09)" "isspace (CHR 0x0A)"
    by (simp_all add: isspace_def)
  have h: "\<forall>c\<in>set [CHR '' '', CHR 0x09, CHR 0x0A]. isspace c"
    using s by simp
  have h0: "\<forall>c\<in>set []. isspace c" by simp
  let ?forge = "\<lparr>analyzer_v1 = \<lparr>analyze_code_v1 = answering\<rparr>,
      optimizer_v1 = \<lparr>optimize_code_v1 = answering\<rparr>,
      tester_v1 = \<lparr>generate_tests_v1 = answering\<rparr>\<rparr>"
  let ?forge3 = "fst (CodeForge_init_v3 sample_dspy sample_world)"
  show ?thesis
    using s blank_input_rejected[OF h, of ?forge sample_world ?forge3]
      blank_input_rejected[OF h0, of ?forge sample_world ?forge3]
    by simp
qed

subsection \<open>The two programs compared\<close>

text \<open>
  C8, as the claim states it, fails: the two programs do not configure the same
  language-model client. Started with the same framework in the same world, the
  first installs \<open>codellama:7b\<close> and the second \<open>llama3.2:3b\<close>.
\<close>

theorem variants_configuration_differs:
  "lm (snd (CodeForge_init_v1 sample_dspy sample_world)) \<noteq>
   lm (snd (CodeForge_init_v3 sample_dspy sample_world))"
  by (simp add: CodeForge_init_v1_def CodeForge_init_v3_def configure_def
      OllamaLocal_v1_def OllamaLocal_v3_def)

text \<open>
  C8, amended. The two programs differ in the prompting mechanism of the stages
  (\<open>ChainOfThought\<close> modules in the first, \<open>ReAct\<close> modules with tools in the second)
  and in the model identifier of the client they configure. Apart from these two they
  agree: on the same three modules the orchestrators compute the same result and leave
  the same world, and so do the click handlers with their validation; the stages are
  built from the same three signatures, so that under a framework whose \<open>ReAct\<close>
  behaves as its \<open>ChainOfThought\<close> the two constructed applications are the same; the
  world after construction differs in the model identifier only, device and
  temperature being equal; and the launch arguments are equal.
\<close>

theorem variants_agree:
  "process_v3 f3 code w =
     process_v1
       \<lparr>analyzer_v1 = \<lparr>analyze_code_v1 = analyze_code_v3 (analyzer_v3 f3)\<rparr>,
        optimizer_v1 = \<lparr>optimize_code_v1 = optimize_code_v3 (optimizer_v3 f3)\<rparr>,
        tester_v1 = \<lparr>generate_tests_v1 = generate_tests_v3 (tester_v3 f3)\<rparr>\<rparr> code w \<and>
   process_code_v3 f3 code w =
     process_code_v1
       \<lparr>analyzer_v1 = \<lparr>analyze_code_v1 = analyze_code_v3 (analyzer_v3 f3)\<rparr>,
        optimizer_v1 = \<lparr>optimize_code_v1 = optimize_code_v3 (optimizer_v3 f3)\<rparr>,
        tester_v1 = \<lparr>generate_tests_v1 = generate_tests_v3 (tester_v3 f3)\<rparr>\<rparr> code w \<and>
   ((\<forall>sig tools. ReAct d sig tools = ChainOfThought d sig) \<longrightarrow>
      process_code_v3 (fst (CodeForge_init_v3 d w0)) code w =
      process_code_v1 (fst (CodeForge_init_v1 d w0)) code w) \<and>
   snd (CodeForge_init_v3 d w0) =
     (snd (CodeForge_init_v1 d w0))\<lparr>lm := Some (OllamaLocal_v1\<lparr>model := ''llama3.2:3b''\<rparr>)\<rparr> \<and>
   device OllamaLocal_v3 = device OllamaLocal_v1 \<and>
   temperature OllamaLocal_v3 = temperature OllamaLocal_v1 \<and>
   launch_v3 = launch_v1"
proof (intro conjI impI)
  assume "\<forall>sig tools. ReAct d sig tools = ChainOfThought d sig"
  then show "process_code_v3 (fst (CodeForge_init_v3 d w0)) code w =
      process_code_v1 (fst (CodeForge_init_v1 d w0)) code w"
    by (simp add: process_code_v3_eq CodeForge_init_v3_def CodeForge_init_v1_def
        CodeAnalyzer_init_v3_def CodeOptimizer_init_v3_def TestGenerator_init_v3_def
        CodeAnalyzer_init_v1_def CodeOptimizer_init_v1_def TestGenerator_init_v1_def Let_def)
qed (simp_all add: process_v3_eq process_code_v3_eq CodeForge_init_v3_def
    CodeForge_init_v1_def configure_def OllamaLocal_v1_def OllamaLocal_v3_def
    launch_v1_def launch_v3_def)

theorem variants_agree_witness:
  "(\<forall>sig tools. ReAct sample_dspy sig tools = ChainOfThought sample_dspy sig) \<and>
   process_code_v3 (fst (CodeForge_init_v3 sample_dspy sample_world)) ''x = 1'' sample_world =
   process_code_v1 (fst (CodeForge_init_v1 sample_dspy sample_world)) ''x = 1'' sample_world"
proof -
  have h: "\<forall>sig tools. ReAct sample_dspy sig tools = ChainOfThought sample_dspy sig"
    by (simp add: sample_dspy_def)
  show ?thesis
    using h variants_agree[where d = sample_dspy and ?w0.0 = sample_world
        and code = "''x = 1''" and w = sample_world]
    by blast
qed

end
